theory Spec2Isabelle
  imports Main
begin

section \<open>Python text primitives used by the database manager\<close>

text \<open>
  Query texts and dialect names are Python \<^verbatim>\<open>str\<close> values. They are modelled as HOL
  strings; the character predicates below are Python's on the ASCII range (the range in
  which every keyword of the deny-list and every dialect name lies). Characters above
  127 are treated as neither white space nor cased. White space is what
  \<^verbatim>\<open>str.isspace\<close> accepts there: the code points 9 to 13 and 28 to 32.
\<close>

definition isspace :: "char \<Rightarrow> bool" where
  "isspace c =
     (let n = (of_char c :: nat) in (9 \<le> n \<and> n \<le> 13) \<or> (28 \<le> n \<and> n \<le> 32))"

definition upper_char :: "char \<Rightarrow> char" where
  "upper_char c =
     (let n = (of_char c :: nat) in if 97 \<le> n \<and> n \<le> 122 then char_of (n - 32) else c)"

definition lower_char :: "char \<Rightarrow> char" where
  "lower_char c =
     (let n = (of_char c :: nat) in if 65 \<le> n \<and> n \<le> 90 then char_of (n + 32) else c)"

definition upper :: "string \<Rightarrow> string" where
  "upper s = map upper_char s"

definition lower :: "string \<Rightarrow> string" where
  "lower s = map lower_char s"

definition strip :: "string \<Rightarrow> string" where
  "strip s = rev (dropWhile isspace (rev (dropWhile isspace s)))"

text \<open>
  \<^verbatim>\<open>str.split()\<close> without a separator: runs of white space separate the words, and
  no empty word is produced.
\<close>

function split :: "string \<Rightarrow> string list" where
  "split s =
     (let t = dropWhile isspace s
      in if t = [] then []
         else takeWhile (\<lambda>c. \<not> isspace c) t # split (dropWhile (\<lambda>c. \<not> isspace c) t))"
  by pat_completeness auto
termination
proof (relation "measure length")
  show "wf (measure length)" by simp
next
  fix s t :: string
  assume t: "t = dropWhile isspace s" and ne: "t \<noteq> []"
  have "\<not> isspace (hd t)"
    using t ne hd_dropWhile by metis
  then have "dropWhile (\<lambda>c. \<not> isspace c) t = dropWhile (\<lambda>c. \<not> isspace c) (tl t)"
    using ne by (cases t) simp_all
  then have "length (dropWhile (\<lambda>c. \<not> isspace c) t) \<le> length (tl t)"
    using length_dropWhile_le [of "\<lambda>c. \<not> isspace c" "tl t"] by simp
  also have "\<dots> < length t"
    using ne by (cases t) simp_all
  also have "\<dots> \<le> length s"
    using t by (simp add: length_dropWhile_le)
  finally show "(dropWhile (\<lambda>c. \<not> isspace c) t, s) \<in> measure length"
    by simp
qed

declare split.simps [simp del]

section \<open>Exceptions\<close>

text \<open>
  The exception classes the manager raises or lets through, each with its message.
  \<open>DriverError\<close> stands for any exception of a database driver.
\<close>

datatype py_exn =
    ValueError string
  | ImportError string
  | ConnectionError string
  | RuntimeError string
  | AttributeError string
  | IndexError string
  | ZeroDivisionError string
  | OverflowError string
  | TypeError string
  | DriverError string

fun str_exn :: "py_exn \<Rightarrow> string" where
  "str_exn (ValueError m) = m"
| "str_exn (ImportError m) = m"
| "str_exn (ConnectionError m) = m"
| "str_exn (RuntimeError m) = m"
| "str_exn (AttributeError m) = m"
| "str_exn (IndexError m) = m"
| "str_exn (ZeroDivisionError m) = m"
| "str_exn (OverflowError m) = m"
| "str_exn (TypeError m) = m"
| "str_exn (DriverError m) = m"

section \<open>The manager's state and the driver side\<close>

datatype column_info =
  Column (col_name: string) (col_type: string) (nullable: bool) (primary_key: bool)
         (default_value: "string option")

datatype foreign_key =
  ForeignKey (fk_column: string) (references_table: string) (references_column: string)

datatype table_info =
  Table (table_columns: "column_info list") (foreign_keys: "foreign_key list")
        (table_row_count: nat)

type_synonym schema = "(string \<times> table_info) list"

text \<open>
  A cursor after \<^verbatim>\<open>cursor.execute(sql)\<close>: the column names of
  \<^verbatim>\<open>cursor.description\<close> (\<open>None\<close> when the statement has no result set) and
  the rows the cursor would deliver, in order. A row is a list of cells of type \<open>'c\<close>.
\<close>

record 'c cursor =
  description :: "string list option"
  pending :: "'c list list"


text \<open>
  A connection object of a driver. \<open>closed\<close> is set by \<^verbatim>\<open>close()\<close>;
  \<open>close_error\<close> is the message of the exception \<^verbatim>\<open>close()\<close> raises, if it does;
  \<open>submitted\<close> lists the statements handed to \<^verbatim>\<open>cursor.execute\<close>, oldest first;
  \<open>answer\<close> is what the backend does with a statement; \<open>session_error\<close> is the
  exception of \<^verbatim>\<open>set_session\<close>, if any; \<open>introspection\<close> is the outcome of the
  dialect's introspection queries on this connection.
\<close>

record 'c conn =
  closed :: bool
  close_error :: "string option"
  submitted :: "string list"
  answer :: "string \<Rightarrow> py_exn + 'c cursor"
  session_error :: "string option"
  introspection :: "py_exn + schema"

text \<open>
  \<^verbatim>\<open>DatabaseManager\<close>: its three attributes, and the connection objects they may
  refer to. \<open>connection\<close> holds a reference (an address into \<open>objects\<close>), as the
  Python attribute does; \<open>next_ref\<close> is the address of the next object created.
\<close>

record 'c manager =
  connection :: "nat option"
  db_type :: "string option"
  schema :: "schema option"
  objects :: "nat \<Rightarrow> 'c conn"
  next_ref :: nat

text \<open>\<^verbatim>\<open>__init__\<close>: no connection, no dialect, no schema.\<close>

definition init :: "(nat \<Rightarrow> 'c conn) \<Rightarrow> 'c manager" where
  "init objs = \<lparr>connection = None, db_type = None, schema = None, objects = objs, next_ref = 0\<rparr>"

text \<open>The driver's \<^verbatim>\<open>connection.close()\<close>.\<close>

definition driver_close :: "'c conn \<Rightarrow> py_exn + 'c conn" where
  "driver_close c =
     (case close_error c of
        Some m \<Rightarrow> Inl (DriverError m)
      | None \<Rightarrow> Inr (c\<lparr>closed := True\<rparr>))"

section \<open>Safe query execution\<close>

record 'c query_result =
  columns :: "string list"
  rows :: "'c list list"
  row_count :: int
  truncated :: bool


text \<open>\<^verbatim>\<open>first_word = sql_upper.split()[0] if sql_upper.split() else ""\<close>\<close>

definition first_word :: "string \<Rightarrow> string" where
  "first_word sql =
     (let sql_upper = upper (strip sql)
      in if split sql_upper \<noteq> [] then hd (split sql_upper) else [])"


definition no_cursor_message :: string where
  "no_cursor_message =
     [CHR 0x27] @ ''NoneType'' @ [CHR 0x27] @ '' object has no attribute '' @
     [CHR 0x27] @ ''cursor'' @ [CHR 0x27]"




section \<open>Connecting and closing\<close>

text \<open>
  The three drivers as the manager sees them: what \<^verbatim>\<open>sqlite3.connect\<close>,
  \<^verbatim>\<open>psycopg2.connect\<close> and \<^verbatim>\<open>mysql.connector.connect\<close> do with a connection
  string (for MySQL: with the parameters \<^verbatim>\<open>_parse_mysql_uri\<close> reads from it, an
  unreadable port being one of the errors), and whether the two optional packages can be
  imported.
\<close>

record 'c drivers =
  sqlite3_connect :: "string \<Rightarrow> py_exn + 'c conn"
  psycopg2_installed :: bool
  psycopg2_connect :: "string \<Rightarrow> py_exn + 'c conn"
  mysql_installed :: bool
  mysql_connect :: "string \<Rightarrow> py_exn + 'c conn"

text \<open>\<^verbatim>\<open>self.connection = <new connection object>\<close>\<close>

definition new_object :: "'c manager \<Rightarrow> 'c conn \<Rightarrow> 'c manager" where
  "new_object m c =
     m\<lparr>connection := Some (next_ref m), objects := (objects m)(next_ref m := c),
       next_ref := Suc (next_ref m)\<rparr>"

text \<open>
  \<^verbatim>\<open>if self.connection: try: self.connection.close() except Exception: pass\<close>.
  The attribute keeps referring to the object.
\<close>

definition close_prior :: "'c manager \<Rightarrow> 'c manager" where
  "close_prior m =
     (case connection m of
        None \<Rightarrow> m
      | Some r \<Rightarrow>
          (case driver_close (objects m r) of
             Inl e \<Rightarrow> m
           | Inr c' \<Rightarrow> m\<lparr>objects := (objects m)(r := c')\<rparr>))"

definition psycopg2_missing :: string where
  "psycopg2_missing =
     ''psycopg2 is required for PostgreSQL. Install it with: pip install psycopg2-binary''"

definition mysql_missing :: string where
  "mysql_missing =
     ''mysql-connector-python is required for MySQL. '' @
     ''Install it with: pip install mysql-connector-python''"

definition unsupported_message :: "string \<Rightarrow> string" where
  "unsupported_message dt =
     ''Unsupported database type: '' @ [CHR 0x27] @ dt @ [CHR 0x27] @
     ''. Supported: sqlite, postgresql, mysql''"

text \<open>The body of the \<^verbatim>\<open>try\<close> block of \<^verbatim>\<open>connect\<close>, on the normalised dialect name.\<close>

definition open_connection ::
    "'c drivers \<Rightarrow> 'c manager \<Rightarrow> string \<Rightarrow> string \<Rightarrow> (py_exn + unit) \<times> 'c manager" where
  "open_connection env m dt connection_string =
     (if dt = ''sqlite'' then
        (case sqlite3_connect env connection_string of
           Inl e \<Rightarrow> (Inl e, m)
         | Inr c \<Rightarrow> (Inr (), new_object m c))
      else if dt = ''postgresql'' \<or> dt = ''postgres'' then
        (let m1 = m\<lparr>db_type := Some ''postgresql''\<rparr> in
         if \<not> psycopg2_installed env then (Inl (ImportError psycopg2_missing), m1)
         else
           (case psycopg2_connect env connection_string of
              Inl e \<Rightarrow> (Inl e, m1)
            | Inr c \<Rightarrow>
                (let m2 = new_object m1 c in
                 case session_error c of
                   Some msg \<Rightarrow> (Inl (DriverError msg), m2)
                 | None \<Rightarrow> (Inr (), m2))))
      else if dt = ''mysql'' then
        (if \<not> mysql_installed env then (Inl (ImportError mysql_missing), m)
         else
           (case mysql_connect env connection_string of
              Inl e \<Rightarrow> (Inl e, m)
            | Inr c \<Rightarrow> (Inr (), new_object m c)))
      else (Inl (ValueError (unsupported_message dt)), m))"

text \<open>
  The two \<^verbatim>\<open>except\<close> clauses: a \<^verbatim>\<open>ValueError\<close> or \<^verbatim>\<open>ImportError\<close> is raised
  again as it is, anything else becomes a \<^verbatim>\<open>ConnectionError\<close>.
\<close>

definition connect_error :: "string \<Rightarrow> py_exn \<Rightarrow> py_exn" where
  "connect_error dt e =
     (case e of
        ValueError msg \<Rightarrow> e
      | ImportError msg \<Rightarrow> e
      | _ \<Rightarrow> ConnectionError (''Failed to connect to '' @ dt @ '': '' @ str_exn e))"

text \<open>
  \<^verbatim>\<open>_introspect_schema\<close>: one introspection per dialect tag, the empty schema for any
  other tag. What the dialect's queries find is the connection's \<open>introspection\<close>.
\<close>

definition introspect_schema :: "'c manager \<Rightarrow> py_exn + schema" where
  "introspect_schema m =
     (let on_connection =
            (case connection m of
               None \<Rightarrow> Inl (AttributeError no_cursor_message)
             | Some r \<Rightarrow> introspection (objects m r))
      in if db_type m = Some ''sqlite'' then on_connection
         else if db_type m = Some ''postgresql'' then on_connection
         else if db_type m = Some ''mysql'' then on_connection
         else Inr [])"

text \<open>
  \<^verbatim>\<open>connect\<close>: the dialect tag is stored first, the prior connection is closed next,
  then the new connection is opened and introspected.
\<close>

definition connect ::
    "'c drivers \<Rightarrow> 'c manager \<Rightarrow> string \<Rightarrow> string \<Rightarrow> (py_exn + schema) \<times> 'c manager" where
  "connect env m db_type_arg connection_string =
     (let dt = strip (lower db_type_arg);
          m1 = m\<lparr>db_type := Some dt\<rparr>;
          m2 = close_prior m1
      in case open_connection env m2 dt connection_string of
           (Inl e, m3) \<Rightarrow> (Inl (connect_error dt e), m3)
         | (Inr u, m3) \<Rightarrow>
             (case introspect_schema m3 of
                Inl e \<Rightarrow> (Inl e, m3)
              | Inr sch \<Rightarrow> (Inr sch, m3\<lparr>schema := Some sch\<rparr>)))"

text \<open>
  \<^verbatim>\<open>close\<close>: nothing without a connection; otherwise the driver's \<^verbatim>\<open>close()\<close>,
  whose exception leaves the three attributes as they are, and then the three
  assignments of \<^verbatim>\<open>None\<close>.
\<close>

definition close :: "'c manager \<Rightarrow> (py_exn + unit) \<times> 'c manager" where
  "close m =
     (case connection m of
        None \<Rightarrow> (Inr (), m)
      | Some r \<Rightarrow>
          (case driver_close (objects m r) of
             Inl e \<Rightarrow> (Inl e, m)
           | Inr c' \<Rightarrow>
               (Inr (), m\<lparr>objects := (objects m)(r := c'), connection := None,
                          db_type := None, schema := None\<rparr>)))"

section \<open>Chart configuration\<close>

text \<open>
  The cells of a tabular result: null, integers, floating-point numbers, strings and
  booleans. Python's floating-point numbers are kept abstract (the type \<open>'f\<close>); what
  the interpreter does with them is a parameter of the model: \<open>float_of_int\<close> is
  \<^verbatim>\<open>float\<close> on an integer (\<open>None\<close> for the \<^verbatim>\<open>OverflowError\<close> of an integer too
  large), \<open>float_of_str\<close> is \<^verbatim>\<open>float\<close> on a string (\<open>None\<close> for the
  \<^verbatim>\<open>ValueError\<close> of a text that is no number), \<open>str_of_float\<close> is \<^verbatim>\<open>str\<close>.
\<close>

datatype 'f cell = CNone | CInt int | CFloat 'f | CStr string | CBool bool

record 'f runtime =
  float_of_int :: "int \<Rightarrow> 'f option"
  float_of_str :: "string \<Rightarrow> 'f option"
  str_of_float :: "'f \<Rightarrow> string"

text \<open>A chart value: the result of \<^verbatim>\<open>float(...)\<close>, or the integer literal \<^verbatim>\<open>0\<close>.\<close>

datatype 'f num = PyFloat 'f | PyInt int

fun str_nat :: "nat \<Rightarrow> string" where
  "str_nat n =
     (if n < 10 then [char_of (48 + n)] else str_nat (n div 10) @ [char_of (48 + n mod 10)])"

declare str_nat.simps [simp del]

definition str_int :: "int \<Rightarrow> string" where
  "str_int i = (if i < 0 then CHR ''-'' # str_nat (nat (- i)) else str_nat (nat i))"

text \<open>\<^verbatim>\<open>str(value)\<close>\<close>

fun py_str :: "'f runtime \<Rightarrow> 'f cell \<Rightarrow> string" where
  "py_str rt CNone = ''None''"
| "py_str rt (CInt i) = str_int i"
| "py_str rt (CFloat f) = str_of_float rt f"
| "py_str rt (CStr s) = s"
| "py_str rt (CBool b) = (if b then ''True'' else ''False'')"

text \<open>\<^verbatim>\<open>float(value)\<close>\<close>

definition float_int :: "'f runtime \<Rightarrow> int \<Rightarrow> py_exn + 'f" where
  "float_int rt i =
     (case float_of_int rt i of
        None \<Rightarrow> Inl (OverflowError ''int too large to convert to float'')
      | Some f \<Rightarrow> Inr f)"

fun py_float :: "'f runtime \<Rightarrow> 'f cell \<Rightarrow> py_exn + 'f" where
  "py_float rt CNone =
     Inl (TypeError (''float() argument must be a string or a real number, not '' @
                     [CHR 0x27] @ ''NoneType'' @ [CHR 0x27]))"
| "py_float rt (CInt i) = float_int rt i"
| "py_float rt (CFloat f) = Inr f"
| "py_float rt (CStr s) =
     (case float_of_str rt s of
        None \<Rightarrow> Inl (ValueError (''could not convert string to float: '' @ s))
      | Some f \<Rightarrow> Inr f)"
| "py_float rt (CBool b) = float_int rt (if b then 1 else 0)"

text \<open>\<^verbatim>\<open>xs[i]\<close> for an index that is not negative.\<close>

definition getitem :: "'a list \<Rightarrow> nat \<Rightarrow> py_exn + 'a" where
  "getitem xs i =
     (if i < length xs then Inr (xs ! i) else Inl (IndexError ''list index out of range''))"

text \<open>\<^verbatim>\<open>xs.index(x)\<close>: the first position of \<open>x\<close>, a \<^verbatim>\<open>ValueError\<close> without one.\<close>

fun py_index :: "'a list \<Rightarrow> 'a \<Rightarrow> py_exn + nat" where
  "py_index [] x = Inl (ValueError ''value is not in list'')"
| "py_index (y # ys) x =
     (if y = x then Inr 0
      else (case py_index ys x of Inl e \<Rightarrow> Inl e | Inr i \<Rightarrow> Inr (Suc i)))"

text \<open>A comprehension or loop whose body may raise: the first exception ends it.\<close>

fun for_each :: "('a \<Rightarrow> py_exn + 'b) \<Rightarrow> 'a list \<Rightarrow> py_exn + 'b list" where
  "for_each f [] = Inr []"
| "for_each f (x # xs) =
     (case f x of
        Inl e \<Rightarrow> Inl e
      | Inr y \<Rightarrow> (case for_each f xs of Inl e \<Rightarrow> Inl e | Inr ys \<Rightarrow> Inr (y # ys)))"

text \<open>
  A chart suggestion is the dictionary decoded from the language model's answer; a key
  may be missing. The values are modelled at the types the suggestion is documented to
  have.
\<close>

record suggestion =
  x_column :: "string option"
  y_columns :: "string list option"
  chart_type :: "string option"
  title :: "string option"

datatype color_value = OneColor string | ColorList "string list"

text \<open>
  A dataset of the configuration. The three keys that only a line chart has are optional
  fields; \<open>tension\<close> holds the literal of the source, \<^verbatim>\<open>0.4\<close>, as text.
\<close>

record 'f dataset =
  label :: string
  data :: "'f num list"
  backgroundColor :: color_value
  borderColor :: color_value
  borderWidth :: nat
  fill :: "bool option"
  tension :: "string option"
  pointRadius :: "nat option"

datatype axis_options =
  AxisOptions (ticks_color: string) (grid_color: string) (beginAtZero: "bool option")

record 'f chart_config =
  chartjs_type :: string
  labels :: "string list"
  datasets :: "'f dataset list"
  responsive :: bool
  maintainAspectRatio :: bool
  legend_display :: bool
  legend_labels_color :: string
  scales :: "(axis_options \<times> axis_options) option"
  indexAxis :: "string option"

record 'f chart_output =
  config :: "'f chart_config"
  out_title :: string
  out_chart_type :: string

text \<open>
  \<^verbatim>\<open>x_idx = columns.index(x_col) if x_col in columns else 0\<close>
\<close>

definition x_index :: "string list \<Rightarrow> string \<Rightarrow> py_exn + nat" where
  "x_index cols x_col = (if x_col \<in> set cols then py_index cols x_col else Inr 0)"

text \<open>
  \<^verbatim>\<open>y_idx = columns.index(yc) if yc in columns else (1 if len(columns) > 1 else 0)\<close>
\<close>

definition y_index :: "string list \<Rightarrow> string \<Rightarrow> py_exn + nat" where
  "y_index cols yc =
     (if yc \<in> set cols then py_index cols yc
      else Inr (if length cols > 1 then 1 else 0))"

text \<open>
  The body of the inner loop: \<^verbatim>\<open>float(row[y_idx])\<close>, with \<^verbatim>\<open>0\<close> appended in place
  of a \<^verbatim>\<open>TypeError\<close> or \<^verbatim>\<open>ValueError\<close>. No other exception is caught.
\<close>

definition chart_value :: "'f runtime \<Rightarrow> nat \<Rightarrow> 'f cell list \<Rightarrow> py_exn + 'f num" where
  "chart_value rt y_idx row =
     (case getitem row y_idx of
        Inl e \<Rightarrow> Inl e
      | Inr v \<Rightarrow>
          (case py_float rt v of
             Inr f \<Rightarrow> Inr (PyFloat f)
           | Inl (TypeError msg) \<Rightarrow> Inr (PyInt 0)
           | Inl (ValueError msg) \<Rightarrow> Inr (PyInt 0)
           | Inl e \<Rightarrow> Inl e))"

definition per_dataset_kinds :: "string list" where
  "per_dataset_kinds = [''bar'', ''horizontalBar'', ''line'']"

text \<open>
  One turn of the loop over \<^verbatim>\<open>enumerate(y_cols)\<close>. \<open>colors\<close> and
  \<open>border_colors\<close> are \<^verbatim>\<open>CHART_COLORS\<close> and \<^verbatim>\<open>CHART_BORDER_COLORS\<close>, two
  constants of a module that is not among the sources.
\<close>

definition build_dataset ::
    "'f runtime \<Rightarrow> string list \<Rightarrow> string list \<Rightarrow> string list \<Rightarrow> 'f cell list list \<Rightarrow> string \<Rightarrow>
     nat \<times> string \<Rightarrow> py_exn + 'f dataset" where
  "build_dataset rt colors border_colors cols rws ctype iy =
     (case iy of (i, yc) \<Rightarrow>
        (case y_index cols yc of
           Inl e \<Rightarrow> Inl e
         | Inr y_idx \<Rightarrow>
             (case for_each (chart_value rt y_idx) rws of
                Inl e \<Rightarrow> Inl e
              | Inr vals \<Rightarrow>
                  if length colors = 0
                  then Inl (ZeroDivisionError ''integer modulo by zero'')
                  else
                    (let color_idx = i mod length colors in
                     case (if ctype \<in> set per_dataset_kinds
                           then map_sum id OneColor (getitem colors color_idx)
                           else Inr (ColorList (take (length vals) colors))) of
                       Inl e \<Rightarrow> Inl e
                     | Inr bg \<Rightarrow>
                         (case (if ctype \<in> set per_dataset_kinds
                                then map_sum id OneColor (getitem border_colors color_idx)
                                else Inr (ColorList (take (length vals) border_colors))) of
                            Inl e \<Rightarrow> Inl e
                          | Inr bd \<Rightarrow>
                              Inr \<lparr>label = yc, data = vals, backgroundColor = bg,
                                   borderColor = bd, borderWidth = 2,
                                   fill = (if ctype = ''line'' then Some True else None),
                                   tension = (if ctype = ''line'' then Some ''0.4'' else None),
                                   pointRadius = (if ctype = ''line'' then Some 4 else None)\<rparr>)))))"

definition cartesian_scales :: "axis_options \<times> axis_options" where
  "cartesian_scales =
     (AxisOptions ''#94a3b8'' ''rgba(148,163,184,0.1)'' None,
      AxisOptions ''#94a3b8'' ''rgba(148,163,184,0.1)'' (Some True))"

text \<open>\<^verbatim>\<open>d.get(key, default)\<close>, the dictionary's entry being \<open>v\<close>.\<close>

definition dict_get :: "'a option \<Rightarrow> 'a \<Rightarrow> 'a" where
  "dict_get v d = (case v of Some x \<Rightarrow> x | None \<Rightarrow> d)"

text \<open>
  \<^verbatim>\<open>_build_chart_config\<close>. The default \<^verbatim>\<open>columns[0]\<close> of the first
  \<^verbatim>\<open>suggestion.get\<close> is evaluated before the call, whether the key is present or not.
\<close>

definition build_chart_config ::
    "'f runtime \<Rightarrow> string list \<Rightarrow> string list \<Rightarrow> 'f cell query_result \<Rightarrow> suggestion \<Rightarrow>
     py_exn + 'f chart_output" where
  "build_chart_config rt colors border_colors result sug =
     (let cols = columns result; rws = rows result in
      case getitem cols 0 of
        Inl e \<Rightarrow> Inl e
      | Inr first_col \<Rightarrow>
          (let x_col = dict_get (x_column sug) first_col;
               y_cols = dict_get (y_columns sug) (take 1 (drop 1 cols));
               ctype = dict_get (chart_type sug) ''bar''
           in case x_index cols x_col of
                Inl e \<Rightarrow> Inl e
              | Inr x_idx \<Rightarrow>
                  (case for_each (\<lambda>row. map_sum id (py_str rt) (getitem row x_idx)) rws of
                     Inl e \<Rightarrow> Inl e
                   | Inr lbls \<Rightarrow>
                       (case for_each (build_dataset rt colors border_colors cols rws ctype)
                               (zip [0 ..< length y_cols] y_cols) of
                          Inl e \<Rightarrow> Inl e
                        | Inr dss \<Rightarrow>
                            Inr \<lparr>config =
                                   \<lparr>chartjs_type = (if ctype = ''horizontalBar'' then ''bar'' else ctype),
                                    labels = lbls,
                                    datasets = dss,
                                    responsive = True,
                                    maintainAspectRatio = False,
                                    legend_display =
                                      (length dss > 1 \<or> ctype \<in> set [''pie'', ''doughnut'']),
                                    legend_labels_color = ''#e2e8f0'',
                                    scales =
                                      (if ctype \<notin> set [''pie'', ''doughnut'']
                                       then Some cartesian_scales else None),
                                    indexAxis =
                                      (if ctype = ''horizontalBar'' then Some ''y'' else None)\<rparr>,
                                 out_title = dict_get (title sug) [],
                                 out_chart_type = ctype\<rparr>))))"

text \<open>
  A cell whose conversion by \<^verbatim>\<open>float\<close> raises nothing but a \<^verbatim>\<open>TypeError\<close> or a
  \<^verbatim>\<open>ValueError\<close>: every cell but an integer too large for a floating-point number.
\<close>

definition float_safe :: "'f runtime \<Rightarrow> 'f cell \<Rightarrow> bool" where
  "float_safe rt c =
     (case py_float rt c of
        Inr f \<Rightarrow> True
      | Inl (TypeError msg) \<Rightarrow> True
      | Inl (ValueError msg) \<Rightarrow> True
      | Inl e \<Rightarrow> False)"

section \<open>Example data\<close>

text \<open>
  A connection whose backend answers every statement that starts with \<^verbatim>\<open>SELECT\<close>
  with the rows of a one-column table and rejects everything else; a manager connected
  to it through SQLite; the drivers of a machine without the MySQL package.
\<close>

definition ten_rows :: "int list list" where
  "ten_rows = [[1], [2], [3], [4], [5], [6], [7], [8], [9], [10]]"


definition demo_answer :: "int list list \<Rightarrow> string \<Rightarrow> py_exn + int cursor" where
  "demo_answer table sql =
     (if first_word sql = ''SELECT'' then Inr \<lparr>description = Some [''n''], pending = table\<rparr>
      else Inl (DriverError ''syntax error''))"

definition demo_conn :: "int list list \<Rightarrow> int conn" where
  "demo_conn table =
     \<lparr>closed = False, close_error = None, submitted = [], answer = demo_answer table,
      session_error = None, introspection = Inr []\<rparr>"

definition demo_manager :: "int list list \<Rightarrow> int manager" where
  "demo_manager table =
     \<lparr>connection = Some 0, db_type = Some ''sqlite'', schema = Some [],
      objects = (\<lambda>r. demo_conn table), next_ref = 1\<rparr>"


text \<open>
  A stand-in interpreter for the examples: its floating-point numbers are the whole
  numbers, and it reads a string as a number when the string is a run of digits.
\<close>

definition digits_value :: "string \<Rightarrow> int option" where
  "digits_value s =
     (if s \<noteq> [] \<and> (\<forall>c \<in> set s. 48 \<le> (of_char c :: nat) \<and> (of_char c :: nat) \<le> 57)
      then Some (foldl (\<lambda>acc c. 10 * acc + int (of_char c - 48)) 0 s)
      else None)"

definition demo_runtime :: "int runtime" where
  "demo_runtime =
     \<lparr>float_of_int = (\<lambda>i. Some i), float_of_str = digits_value,
      str_of_float = (\<lambda>f. str_int f @ ''.0'')\<rparr>"

definition demo_colors :: "string list" where
  "demo_colors = [''red'', ''green'', ''blue'']"

definition demo_border_colors :: "string list" where
  "demo_border_colors = [''darkred'', ''darkgreen'', ''darkblue'']"

definition region_result :: "int cell query_result" where
  "region_result =
     \<lparr>columns = [''region'', ''total''],
      rows = [[CStr ''east'', CInt 10], [CStr ''west'', CStr ''bad'']],
      row_count = 2, truncated = False\<rparr>"

definition region_suggestion :: "string \<Rightarrow> suggestion" where
  "region_suggestion kind =
     \<lparr>x_column = Some ''region'', y_columns = Some [''total''], chart_type = Some kind,
      title = Some ''Totals''\<rparr>"

text \<open>
  Further suggestions: one that names a column the result does not have and no y
  column, and one with more y columns than the palette has colors.
\<close>

definition sparse_suggestion :: suggestion where
  "sparse_suggestion =
     \<lparr>x_column = Some ''nope'', y_columns = Some [], chart_type = None, title = None\<rparr>"

definition wide_suggestion :: suggestion where
  "wide_suggestion =
     \<lparr>x_column = Some ''region'',
      y_columns = Some [''total'', ''total'', ''total'', ''total''],
      chart_type = Some ''line'', title = None\<rparr>"

definition no_columns_result :: "int cell query_result" where
  "no_columns_result = \<lparr>columns = [], rows = [], row_count = 0, truncated = False\<rparr>"

text \<open>The builder on the example result, with the example palette and interpreter.\<close>

definition demo_chart :: "suggestion \<Rightarrow> py_exn + int chart_output" where
  "demo_chart sug =
     build_chart_config demo_runtime demo_colors demo_border_colors region_result sug"

section \<open>Facts about the text primitives\<close>











section \<open>The write gate\<close>




section \<open>The row cap\<close>







section \<open>Blank queries\<close>






section \<open>Connecting with an unsupported dialect\<close>








section \<open>Closing\<close>

text \<open>
  Claim C9. \<^verbatim>\<open>close()\<close> returns normally exactly when there is no connection or the
  driver's \<^verbatim>\<open>close()\<close> does not raise. When it returns with a connection active, that
  connection is closed and \<open>connection\<close>, \<open>db_type\<close> and \<open>schema\<close> are all
  \<open>None\<close>; without a connection it changes nothing; and a second \<^verbatim>\<open>close()\<close>
  returns normally and leaves the state of the first.
\<close>

theorem close_clears_state:
  "(fst (close m) = Inr () \<longleftrightarrow>
      (\<forall>r. connection m = Some r \<longrightarrow> close_error (objects m r) = None)) \<and>
   (fst (close m) = Inr () \<longrightarrow>
      (\<forall>r. connection m = Some r \<longrightarrow>
         connection (snd (close m)) = None \<and> db_type (snd (close m)) = None \<and>
         schema (snd (close m)) = None \<and> closed (objects (snd (close m)) r)) \<and>
      (connection m = None \<longrightarrow> snd (close m) = m) \<and>
      close (snd (close m)) = (Inr (), snd (close m)))"
  by (auto simp: close_def driver_close_def split: option.splits sum.splits)

text \<open>Closing the example manager, and closing it again.\<close>

theorem close_clears_state_witness:
  "fst (close (demo_manager ten_rows)) = Inr () \<and>
   connection (snd (close (demo_manager ten_rows))) = None \<and>
   db_type (snd (close (demo_manager ten_rows))) = None \<and>
   schema (snd (close (demo_manager ten_rows))) = None \<and>
   closed (objects (snd (close (demo_manager ten_rows))) 0) \<and>
   close (snd (close (demo_manager ten_rows))) = (Inr (), snd (close (demo_manager ten_rows)))"
proof -
  have c: "connection (demo_manager ten_rows) = Some 0"
     "close_error (objects (demo_manager ten_rows) 0) = None"
    by (simp_all add: demo_manager_def demo_conn_def)
  from close_clears_state [of "demo_manager ten_rows"] c
  show ?thesis by simp
qed


section \<open>Facts about the chart builder's loops\<close>

lemma for_each_Inr:
  "for_each f xs = Inr ys \<longleftrightarrow> list_all2 (\<lambda>x y. f x = Inr y) xs ys"
proof (induction xs arbitrary: ys)
  case Nil
  show ?case by auto
next
  case (Cons x xs)
  show ?case
    by (auto simp: list_all2_Cons1 Cons.IH [symmetric] split: sum.splits)
qed

lemma for_each_total:
  "(\<And>x. x \<in> set xs \<Longrightarrow> \<exists>y. f x = Inr y) \<Longrightarrow> \<exists>ys. for_each f xs = Inr ys"
proof (induction xs)
  case Nil
  show ?case by simp
next
  case (Cons x xs)
  from Cons.prems [of x] obtain y where y: "f x = Inr y" by auto
  from Cons.IH Cons.prems obtain ys where "for_each f xs = Inr ys" by auto
  with y show ?case by simp
qed

lemma py_index_first:
  "x \<in> set xs \<Longrightarrow>
     \<exists>i. py_index xs x = Inr i \<and> i < length xs \<and> xs ! i = x \<and> (\<forall>j<i. xs ! j \<noteq> x)"
proof (induction xs)
  case Nil
  then show ?case by simp
next
  case (Cons y ys)
  show ?case
  proof (cases "y = x")
    case True
    then show ?thesis by simp
  next
    case False
    with Cons.prems have "x \<in> set ys" by simp
    from Cons.IH [OF this] obtain i where
      i: "py_index ys x = Inr i" "i < length ys" "ys ! i = x" "\<forall>j<i. ys ! j \<noteq> x"
      by blast
    have "\<forall>j<Suc i. (y # ys) ! j \<noteq> x"
    proof (intro allI impI)
      fix j assume "j < Suc i"
      then show "(y # ys) ! j \<noteq> x"
        using False i(4) by (cases j) auto
    qed
    with False i show ?thesis by simp
  qed
qed

lemma for_each_map:
  assumes "for_each f xs = Inr ys"
  shows "length ys = length xs" and "\<And>i. i < length xs \<Longrightarrow> f (xs ! i) = Inr (ys ! i)"
  using assms by (auto simp: for_each_Inr list_all2_conv_all_nth)

lemma chart_value_cases:
  assumes "chart_value rt yi row = Inr v"
  shows "yi < length row \<and>
         v = (case py_float rt (row ! yi) of Inr f \<Rightarrow> PyFloat f | Inl e \<Rightarrow> PyInt 0)"
  using assms
  by (auto simp: chart_value_def getitem_def split: if_splits sum.splits py_exn.splits)

lemma labels_map:
  assumes "for_each (\<lambda>row. map_sum id (py_str rt) (getitem row xi)) rws = Inr lbls"
  shows "lbls = map (\<lambda>row. py_str rt (row ! xi)) rws \<and> (\<forall>row\<in>set rws. xi < length row)"
proof -
  from assms have l: "list_all2 (\<lambda>row y. map_sum id (py_str rt) (getitem row xi) = Inr y) rws lbls"
    by (simp add: for_each_Inr)
  then have len: "length lbls = length rws" by (simp add: list_all2_lengthD)
  have each: "\<And>i. i < length rws \<Longrightarrow> xi < length (rws ! i) \<and> lbls ! i = py_str rt ((rws ! i) ! xi)"
  proof -
    fix i assume "i < length rws"
    with l have "map_sum id (py_str rt) (getitem (rws ! i) xi) = Inr (lbls ! i)"
      by (simp add: list_all2_conv_all_nth)
    then show "xi < length (rws ! i) \<and> lbls ! i = py_str rt ((rws ! i) ! xi)"
      by (auto simp: getitem_def split: if_splits)
  qed
  have "lbls = map (\<lambda>row. py_str rt (row ! xi)) rws"
    using len each by (intro nth_equalityI) simp_all
  moreover have "\<forall>row\<in>set rws. xi < length row"
    using each by (auto simp: in_set_conv_nth)
  ultimately show ?thesis by simp
qed

lemma values_map:
  assumes "for_each (chart_value rt yi) rws = Inr vals"
  shows "vals = map (\<lambda>row. case py_float rt (row ! yi) of Inr f \<Rightarrow> PyFloat f | Inl e \<Rightarrow> PyInt 0) rws"
proof -
  from assms have l: "list_all2 (\<lambda>row v. chart_value rt yi row = Inr v) rws vals"
    by (simp add: for_each_Inr)
  then have len: "length vals = length rws" by (simp add: list_all2_lengthD)
  have "\<And>i. i < length rws \<Longrightarrow>
      vals ! i = (case py_float rt ((rws ! i) ! yi) of Inr f \<Rightarrow> PyFloat f | Inl e \<Rightarrow> PyInt 0)"
  proof -
    fix i assume "i < length rws"
    with l have "chart_value rt yi (rws ! i) = Inr (vals ! i)"
      by (simp add: list_all2_conv_all_nth)
    from chart_value_cases [OF this]
    show "vals ! i = (case py_float rt ((rws ! i) ! yi) of Inr f \<Rightarrow> PyFloat f | Inl e \<Rightarrow> PyInt 0)"
      by simp
  qed
  then show ?thesis using len by (intro nth_equalityI) simp_all
qed

lemma build_dataset_Inr:
  assumes "build_dataset rt colors border_colors cols rws ctype (i, yc) = Inr ds"
  shows "\<exists>yi. y_index cols yc = Inr yi \<and> label ds = yc \<and>
           data ds = map (\<lambda>row. case py_float rt (row ! yi) of Inr f \<Rightarrow> PyFloat f | Inl e \<Rightarrow> PyInt 0) rws \<and>
           colors \<noteq> [] \<and>
           (ctype \<in> set per_dataset_kinds \<longrightarrow>
              backgroundColor ds = OneColor (colors ! (i mod length colors)) \<and>
              borderColor ds = OneColor (border_colors ! (i mod length colors)) \<and>
              i mod length colors < length border_colors) \<and>
           (ctype \<notin> set per_dataset_kinds \<longrightarrow>
              backgroundColor ds = ColorList (take (length rws) colors) \<and>
              borderColor ds = ColorList (take (length rws) border_colors)) \<and>
           (fill ds = (if ctype = ''line'' then Some True else None)) \<and>
           (tension ds = (if ctype = ''line'' then Some ''0.4'' else None)) \<and>
           (pointRadius ds = (if ctype = ''line'' then Some 4 else None)) \<and>
           borderWidth ds = 2"
proof -
  from assms obtain yi vals where
    yi: "y_index cols yc = Inr yi" and vals: "for_each (chart_value rt yi) rws = Inr vals"
    by (auto simp: build_dataset_def split: sum.splits)
  note v = values_map [OF vals]
  have lv: "length vals = length rws" using v by simp
  from assms yi vals have ne: "colors \<noteq> []"
    by (auto simp: build_dataset_def split: if_splits)
  show ?thesis
  proof (cases "ctype \<in> set per_dataset_kinds")
    case True
    with assms yi vals ne show ?thesis
      by (auto simp: build_dataset_def Let_def getitem_def v split: if_splits sum.splits)
  next
    case False
    with assms yi vals ne show ?thesis
      by (auto simp: build_dataset_def Let_def lv v split: if_splits sum.splits)
  qed
qed

section \<open>Column indices of a chart\<close>



section \<open>What a returned chart configuration contains\<close>

lemma build_chart_config_Inr:
  assumes "build_chart_config rt colors border_colors result sug = Inr out"
  shows "\<exists>xi lbls dss.
      columns result \<noteq> [] \<and>
      x_index (columns result) (dict_get (x_column sug) (hd (columns result))) = Inr xi \<and>
      for_each (\<lambda>row. map_sum id (py_str rt) (getitem row xi)) (rows result) = Inr lbls \<and>
      for_each (build_dataset rt colors border_colors (columns result) (rows result)
                 (dict_get (chart_type sug) ''bar''))
        (zip [0 ..< length (dict_get (y_columns sug) (take 1 (drop 1 (columns result))))]
             (dict_get (y_columns sug) (take 1 (drop 1 (columns result))))) = Inr dss \<and>
      labels (config out) = lbls \<and> datasets (config out) = dss \<and>
      chartjs_type (config out) =
        (if dict_get (chart_type sug) ''bar'' = ''horizontalBar'' then ''bar''
         else dict_get (chart_type sug) ''bar'') \<and>
      legend_display (config out) =
        (length dss > 1 \<or> dict_get (chart_type sug) ''bar'' \<in> set [''pie'', ''doughnut'']) \<and>
      scales (config out) =
        (if dict_get (chart_type sug) ''bar'' \<notin> set [''pie'', ''doughnut'']
         then Some cartesian_scales else None) \<and>
      indexAxis (config out) =
        (if dict_get (chart_type sug) ''bar'' = ''horizontalBar'' then Some ''y'' else None) \<and>
      out_chart_type out = dict_get (chart_type sug) ''bar'' \<and>
      out_title out = dict_get (title sug) []"
proof -
  from assms have ne: "columns result \<noteq> []"
    by (auto simp: build_chart_config_def Let_def getitem_def split: if_splits)
  then have g: "getitem (columns result) 0 = Inr (hd (columns result))"
    by (cases "columns result") (simp_all add: getitem_def)
  from assms show ?thesis
    unfolding build_chart_config_def Let_def g
    by (auto simp: ne split: sum.splits)
qed

lemma datasets_each:
  assumes "for_each (build_dataset rt colors border_colors cols rws ctype)
             (zip [0 ..< length ycols] ycols) = Inr dss"
  shows "length dss = length ycols"
    and "\<And>k. k < length ycols \<Longrightarrow>
           build_dataset rt colors border_colors cols rws ctype (k, ycols ! k) = Inr (dss ! k)"
proof -
  show "length dss = length ycols"
    using for_each_map(1) [OF assms] by simp
  fix k assume k: "k < length ycols"
  then have "k < length (zip [0 ..< length ycols] ycols)" by simp
  from for_each_map(2) [OF assms this] k
  show "build_dataset rt colors border_colors cols rws ctype (k, ycols ! k) = Inr (dss ! k)"
    by simp
qed

lemma float_safe_simps:
  "float_safe rt CNone"
  "float_safe rt (CFloat f)"
  "float_safe rt (CStr s)"
  "float_safe rt (CInt i) = (float_of_int rt i \<noteq> None)"
  "float_safe rt (CBool b) = (float_of_int rt (if b then 1 else 0) \<noteq> None)"
  by (auto simp: float_safe_def float_int_def split: option.splits)

lemma x_index_bound:
  "cols \<noteq> [] \<Longrightarrow> \<exists>i. x_index cols x = Inr i \<and> i < length cols"
  using py_index_first [of x cols] by (auto simp: x_index_def)

lemma y_index_bound:
  "cols \<noteq> [] \<Longrightarrow> \<exists>i. y_index cols y = Inr i \<and> i < length cols"
  using py_index_first [of y cols] by (auto simp: y_index_def)

lemma chart_value_total:
  "yi < length row \<Longrightarrow> \<forall>c\<in>set row. float_safe rt c \<Longrightarrow> \<exists>v. chart_value rt yi row = Inr v"
proof -
  assume yi: "yi < length row" and safe: "\<forall>c\<in>set row. float_safe rt c"
  then have "float_safe rt (row ! yi)" by simp
  then show ?thesis
    using yi by (auto simp: chart_value_def getitem_def float_safe_def split: sum.splits py_exn.splits)
qed

lemma build_dataset_total:
  assumes "cols \<noteq> []"
    and "\<forall>row\<in>set rws. length cols \<le> length row"
    and "\<forall>row\<in>set rws. \<forall>c\<in>set row. float_safe rt c"
    and "colors \<noteq> []" and "length colors \<le> length border_colors"
  shows "\<exists>ds. build_dataset rt colors border_colors cols rws ctype (i, yc) = Inr ds"
proof -
  from y_index_bound [OF assms(1)] obtain yi where
    yi: "y_index cols yc = Inr yi" "yi < length cols" by blast
  have "\<exists>vals. for_each (chart_value rt yi) rws = Inr vals"
  proof (rule for_each_total)
    fix row assume "row \<in> set rws"
    with assms(2,3) yi(2) have "yi < length row" "\<forall>c\<in>set row. float_safe rt c" by auto
    then show "\<exists>v. chart_value rt yi row = Inr v" by (rule chart_value_total)
  qed
  then obtain vals where vals: "for_each (chart_value rt yi) rws = Inr vals" by blast
  have "i mod length colors < length colors" using assms(4) by simp
  then have b: "i mod length colors < length colors" "i mod length colors < length border_colors"
    using assms(5) by simp_all
  show ?thesis
    using yi(1) vals assms(4) b
    by (simp add: build_dataset_def Let_def getitem_def)
qed

lemma region_shape:
  "columns region_result \<noteq> []"
  "\<forall>row\<in>set (rows region_result). length (columns region_result) \<le> length row"
  "\<forall>row\<in>set (rows region_result). \<forall>c\<in>set row. float_safe demo_runtime c"
  "demo_colors \<noteq> []" "length demo_colors \<le> length demo_border_colors"
  by (simp_all add: region_result_def float_safe_simps demo_runtime_def demo_colors_def
      demo_border_colors_def)

lemma demo_chart_returns:
  "build_chart_config demo_runtime demo_colors demo_border_colors region_result
     (region_suggestion ''bar'') = Inr (projr (demo_chart (region_suggestion ''bar'')))"
  "build_chart_config demo_runtime demo_colors demo_border_colors region_result
     (region_suggestion ''pie'') = Inr (projr (demo_chart (region_suggestion ''pie'')))"
  "build_chart_config demo_runtime demo_colors demo_border_colors region_result
     (region_suggestion ''horizontalBar'') =
       Inr (projr (demo_chart (region_suggestion ''horizontalBar'')))"
  "build_chart_config demo_runtime demo_colors demo_border_colors region_result
     wide_suggestion = Inr (projr (demo_chart wide_suggestion))"
  by code_simp+

section \<open>Whether the chart builder returns\<close>

text \<open>
  Claim C4, as the code has it. The builder returns a configuration for every suggestion
  (keys missing or present, y columns none or many, names known or unknown to the
  result) when the result has at least one column, every row has at least as many cells
  as there are columns, no cell is an integer too large for a floating-point number, and
  the palette is not empty and has a border color for each of its colors.
\<close>

theorem chart_builder_returns:
  "columns result \<noteq> [] \<Longrightarrow>
   \<forall>row\<in>set (rows result). length (columns result) \<le> length row \<Longrightarrow>
   \<forall>row\<in>set (rows result). \<forall>c\<in>set row. float_safe rt c \<Longrightarrow>
   colors \<noteq> [] \<Longrightarrow> length colors \<le> length border_colors \<Longrightarrow>
     \<exists>out. build_chart_config rt colors border_colors result sug = Inr out"
proof -
  let ?cols = "columns result" and ?rws = "rows result"
  assume ne: "?cols \<noteq> []"
    and len: "\<forall>row\<in>set ?rws. length ?cols \<le> length row"
    and safe: "\<forall>row\<in>set ?rws. \<forall>c\<in>set row. float_safe rt c"
    and pal: "colors \<noteq> []" "length colors \<le> length border_colors"
  from ne have g: "getitem ?cols 0 = Inr (hd ?cols)"
    by (cases ?cols) (simp_all add: getitem_def)
  from x_index_bound [OF ne] obtain xi where
    xi: "x_index ?cols (dict_get (x_column sug) (hd ?cols)) = Inr xi" "xi < length ?cols"
    by blast
  have "\<exists>lbls. for_each (\<lambda>row. map_sum id (py_str rt) (getitem row xi)) ?rws = Inr lbls"
  proof (rule for_each_total)
    fix row assume "row \<in> set ?rws"
    with len xi(2) have "xi < length row" by auto
    then show "\<exists>y. map_sum id (py_str rt) (getitem row xi) = Inr y"
      by (simp add: getitem_def)
  qed
  then obtain lbls where
    lbls: "for_each (\<lambda>row. map_sum id (py_str rt) (getitem row xi)) ?rws = Inr lbls" by blast
  let ?ycols = "dict_get (y_columns sug) (take 1 (drop 1 ?cols))"
  let ?kind = "dict_get (chart_type sug) ''bar''"
  have "\<exists>dss. for_each (build_dataset rt colors border_colors ?cols ?rws ?kind)
                 (zip [0 ..< length ?ycols] ?ycols) = Inr dss"
  proof (rule for_each_total)
    fix p assume "p \<in> set (zip [0 ..< length ?ycols] ?ycols)"
    obtain i yc where p: "p = (i, yc)" by (cases p)
    show "\<exists>ds. build_dataset rt colors border_colors ?cols ?rws ?kind p = Inr ds"
      unfolding p by (rule build_dataset_total [OF ne len safe pal])
  qed
  then obtain dss where
    dss: "for_each (build_dataset rt colors border_colors ?cols ?rws ?kind)
            (zip [0 ..< length ?ycols] ?ycols) = Inr dss" by blast
  show ?thesis
    unfolding build_chart_config_def Let_def g sum.case xi(1) lbls dss
    by (rule exI) (rule refl)
qed

text \<open>
  The example result, with a suggestion that names an unknown x column and no y column,
  and with a complete suggestion.
\<close>

theorem chart_builder_returns_witness:
  "(\<exists>out. build_chart_config demo_runtime demo_colors demo_border_colors region_result
            sparse_suggestion = Inr out) \<and>
   (\<exists>out. build_chart_config demo_runtime demo_colors demo_border_colors region_result
            (region_suggestion ''bar'') = Inr out)"
  using chart_builder_returns [OF region_shape, of sparse_suggestion]
        chart_builder_returns [OF region_shape, of "region_suggestion ''bar''"]
  by (rule conjI)

text \<open>
  The builder does not return for every result: with no column at all the default of
  the first lookup, \<^verbatim>\<open>columns[0]\<close>, raises an \<^verbatim>\<open>IndexError\<close>, whatever the
  suggestion holds.
\<close>

theorem chart_builder_returns_counterexample:
  "build_chart_config demo_runtime demo_colors demo_border_colors no_columns_result
     (region_suggestion ''bar'') = Inl (IndexError ''list index out of range'')"
  by (simp add: build_chart_config_def no_columns_result_def getitem_def)

section \<open>Labels and values\<close>

text \<open>
  Claim C6. In every configuration the builder returns, the labels are the string
  representations of the x-indexed cells of the rows, in row order; there is one dataset
  per suggested y column, in order, labelled with the column's name, and its values are,
  row by row in order, the y-indexed cell converted by \<^verbatim>\<open>float\<close>, with \<^verbatim>\<open>0\<close> in
  place of every cell the conversion fails on.
\<close>

theorem chart_labels_and_values:
  "build_chart_config rt colors border_colors result sug = Inr out \<Longrightarrow>
     (\<exists>xi. x_index (columns result) (dict_get (x_column sug) (hd (columns result))) = Inr xi \<and>
        labels (config out) = map (\<lambda>row. py_str rt (row ! xi)) (rows result)) \<and>
     length (datasets (config out)) =
       length (dict_get (y_columns sug) (take 1 (drop 1 (columns result)))) \<and>
     (\<forall>k < length (dict_get (y_columns sug) (take 1 (drop 1 (columns result)))).
        \<exists>yi. y_index (columns result)
               (dict_get (y_columns sug) (take 1 (drop 1 (columns result))) ! k) = Inr yi \<and>
          label (datasets (config out) ! k) =
            dict_get (y_columns sug) (take 1 (drop 1 (columns result))) ! k \<and>
          data (datasets (config out) ! k) =
            map (\<lambda>row. case py_float rt (row ! yi) of Inr f \<Rightarrow> PyFloat f | Inl e \<Rightarrow> PyInt 0)
              (rows result))"
proof -
  let ?ycols = "dict_get (y_columns sug) (take 1 (drop 1 (columns result)))"
  assume "build_chart_config rt colors border_colors result sug = Inr out"
  from build_chart_config_Inr [OF this] obtain xi lbls dss where
    xi: "x_index (columns result) (dict_get (x_column sug) (hd (columns result))) = Inr xi" and
    lb: "for_each (\<lambda>row. map_sum id (py_str rt) (getitem row xi)) (rows result) = Inr lbls" and
    ds: "for_each (build_dataset rt colors border_colors (columns result) (rows result)
                 (dict_get (chart_type sug) ''bar''))
          (zip [0 ..< length ?ycols] ?ycols) = Inr dss" and
    out: "labels (config out) = lbls" "datasets (config out) = dss"
    by blast
  have 1: "\<exists>xi. x_index (columns result) (dict_get (x_column sug) (hd (columns result))) = Inr xi \<and>
        labels (config out) = map (\<lambda>row. py_str rt (row ! xi)) (rows result)"
    using xi labels_map [OF lb] out by blast
  have 2: "length (datasets (config out)) = length ?ycols"
    using datasets_each(1) [OF ds] out by simp
  have 3: "\<forall>k < length ?ycols.
        \<exists>yi. y_index (columns result) (?ycols ! k) = Inr yi \<and>
          label (datasets (config out) ! k) = ?ycols ! k \<and>
          data (datasets (config out) ! k) =
            map (\<lambda>row. case py_float rt (row ! yi) of Inr f \<Rightarrow> PyFloat f | Inl e \<Rightarrow> PyInt 0)
              (rows result)"
  proof (intro allI impI)
    fix k assume "k < length ?ycols"
    from build_dataset_Inr [OF datasets_each(2) [OF ds this]]
    show "\<exists>yi. y_index (columns result) (?ycols ! k) = Inr yi \<and>
          label (datasets (config out) ! k) = ?ycols ! k \<and>
          data (datasets (config out) ! k) =
            map (\<lambda>row. case py_float rt (row ! yi) of Inr f \<Rightarrow> PyFloat f | Inl e \<Rightarrow> PyInt 0)
              (rows result)"
      unfolding out by blast
  qed
  from 1 2 3 show ?thesis by blast
qed

text \<open>
  The rows \<^verbatim>\<open>["east", 10]\<close> and \<^verbatim>\<open>["west", "bad"]\<close>, drawn as bars of
  \<^verbatim>\<open>total\<close> over \<^verbatim>\<open>region\<close>: the labels \<^verbatim>\<open>east\<close> and \<^verbatim>\<open>west\<close>, the values
  \<^verbatim>\<open>float(10)\<close> and \<^verbatim>\<open>0\<close>.
\<close>

theorem chart_labels_and_values_witness:
  "labels (config (projr (demo_chart (region_suggestion ''bar'')))) = [''east'', ''west''] \<and>
   map label (datasets (config (projr (demo_chart (region_suggestion ''bar''))))) = [''total''] \<and>
   map data (datasets (config (projr (demo_chart (region_suggestion ''bar''))))) =
     [[PyFloat 10, PyInt 0]]"
proof -
  have e: "labels (config (projr (demo_chart (region_suggestion ''bar'')))) = [''east'', ''west''] \<and>
   map label (datasets (config (projr (demo_chart (region_suggestion ''bar''))))) = [''total''] \<and>
   map data (datasets (config (projr (demo_chart (region_suggestion ''bar''))))) =
     [[PyFloat 10, PyInt 0]]"
    by code_simp
  from chart_labels_and_values [OF demo_chart_returns(1)] e show ?thesis by blast
qed

section \<open>Colors\<close>

text \<open>
  Claim C7, as the code has it. In every configuration the builder returns, each dataset
  has as many values as the result has rows. For the chart kinds \<^verbatim>\<open>bar\<close>,
  \<^verbatim>\<open>horizontalBar\<close> and \<^verbatim>\<open>line\<close> the colors of dataset \<open>k\<close> are the single
  entries of the two palettes at index \<open>k mod\<close> the length of the palette; for every other
  chart kind they are the two palettes cut to the number of values.
\<close>

theorem chart_dataset_colors:
  "build_chart_config rt colors border_colors result sug = Inr out \<Longrightarrow>
     (\<forall>k < length (datasets (config out)).
        length (data (datasets (config out) ! k)) = length (rows result) \<and>
        (dict_get (chart_type sug) ''bar'' \<in> set [''bar'', ''horizontalBar'', ''line''] \<longrightarrow>
           backgroundColor (datasets (config out) ! k) = OneColor (colors ! (k mod length colors)) \<and>
           borderColor (datasets (config out) ! k) =
             OneColor (border_colors ! (k mod length colors))) \<and>
        (dict_get (chart_type sug) ''bar'' \<notin> set [''bar'', ''horizontalBar'', ''line''] \<longrightarrow>
           backgroundColor (datasets (config out) ! k) =
             ColorList (take (length (data (datasets (config out) ! k))) colors) \<and>
           borderColor (datasets (config out) ! k) =
             ColorList (take (length (data (datasets (config out) ! k))) border_colors)))"
proof -
  let ?ycols = "dict_get (y_columns sug) (take 1 (drop 1 (columns result)))"
  let ?kind = "dict_get (chart_type sug) ''bar''"
  assume "build_chart_config rt colors border_colors result sug = Inr out"
  from build_chart_config_Inr [OF this] obtain dss where
    ds: "for_each (build_dataset rt colors border_colors (columns result) (rows result) ?kind)
          (zip [0 ..< length ?ycols] ?ycols) = Inr dss" and
    out: "datasets (config out) = dss"
    by blast
  have len: "length dss = length ?ycols" by (rule datasets_each(1) [OF ds])
  show ?thesis
  proof (intro allI impI)
    fix k assume "k < length (datasets (config out))"
    then have "k < length ?ycols" using out len by simp
    from build_dataset_Inr [OF datasets_each(2) [OF ds this]]
    show "length (data (datasets (config out) ! k)) = length (rows result) \<and>
        (?kind \<in> set [''bar'', ''horizontalBar'', ''line''] \<longrightarrow>
           backgroundColor (datasets (config out) ! k) = OneColor (colors ! (k mod length colors)) \<and>
           borderColor (datasets (config out) ! k) =
             OneColor (border_colors ! (k mod length colors))) \<and>
        (?kind \<notin> set [''bar'', ''horizontalBar'', ''line''] \<longrightarrow>
           backgroundColor (datasets (config out) ! k) =
             ColorList (take (length (data (datasets (config out) ! k))) colors) \<and>
           borderColor (datasets (config out) ! k) =
             ColorList (take (length (data (datasets (config out) ! k))) border_colors))"
      unfolding out per_dataset_kinds_def by auto
  qed
qed

text \<open>
  Four line datasets on a palette of three colors: the fourth takes the first color
  again. A pie chart of two values takes the first two colors of the palette.
\<close>

theorem chart_dataset_colors_witness:
  "map backgroundColor (datasets (config (projr (demo_chart wide_suggestion)))) =
     [OneColor ''red'', OneColor ''green'', OneColor ''blue'', OneColor ''red''] \<and>
   map backgroundColor (datasets (config (projr (demo_chart (region_suggestion ''pie''))))) =
     [ColorList [''red'', ''green'']]"
proof -
  have e: "map backgroundColor (datasets (config (projr (demo_chart wide_suggestion)))) =
     [OneColor ''red'', OneColor ''green'', OneColor ''blue'', OneColor ''red''] \<and>
   map backgroundColor (datasets (config (projr (demo_chart (region_suggestion ''pie''))))) =
     [ColorList [''red'', ''green'']]"
    by code_simp
  from chart_dataset_colors [OF demo_chart_returns(4)]
       chart_dataset_colors [OF demo_chart_returns(2)] e
  show ?thesis by blast
qed

text \<open>
  A scatter chart does not get the single palette color of its dataset: the builder
  returns, and the dataset's color is the palette cut to the two values.
\<close>

theorem chart_dataset_colors_counterexample:
  "\<not> isl (demo_chart (region_suggestion ''scatter'')) \<and>
   backgroundColor (datasets (config (projr (demo_chart (region_suggestion ''scatter'')))) ! 0) =
     ColorList [''red'', ''green''] \<and>
   backgroundColor (datasets (config (projr (demo_chart (region_suggestion ''scatter'')))) ! 0) \<noteq>
     OneColor (demo_colors ! (0 mod length demo_colors))"
  by code_simp

section \<open>Chart kind, legend and scales\<close>

text \<open>
  Claim C8. In every configuration the builder returns: a \<^verbatim>\<open>horizontalBar\<close>
  suggestion gives the kind \<^verbatim>\<open>bar\<close> with \<^verbatim>\<open>indexAxis\<close> set to \<^verbatim>\<open>y\<close>, any other
  kind is kept and has no \<^verbatim>\<open>indexAxis\<close>; the legend is displayed exactly when there
  is more than one dataset or the kind is \<^verbatim>\<open>pie\<close> or \<^verbatim>\<open>doughnut\<close>; the scales are
  present exactly when the kind is neither \<^verbatim>\<open>pie\<close> nor \<^verbatim>\<open>doughnut\<close>.
\<close>

theorem chart_kind_legend_scales:
  "build_chart_config rt colors border_colors result sug = Inr out \<Longrightarrow>
     (dict_get (chart_type sug) ''bar'' = ''horizontalBar'' \<longrightarrow>
        chartjs_type (config out) = ''bar'' \<and> indexAxis (config out) = Some ''y'') \<and>
     (dict_get (chart_type sug) ''bar'' \<noteq> ''horizontalBar'' \<longrightarrow>
        chartjs_type (config out) = dict_get (chart_type sug) ''bar'' \<and>
        indexAxis (config out) = None) \<and>
     (legend_display (config out) \<longleftrightarrow>
        length (datasets (config out)) > 1 \<or>
        dict_get (chart_type sug) ''bar'' \<in> set [''pie'', ''doughnut'']) \<and>
     (scales (config out) \<noteq> None \<longleftrightarrow>
        dict_get (chart_type sug) ''bar'' \<notin> set [''pie'', ''doughnut'']) \<and>
     out_chart_type out = dict_get (chart_type sug) ''bar''"
proof -
  assume "build_chart_config rt colors border_colors result sug = Inr out"
  from build_chart_config_Inr [OF this] show ?thesis by auto
qed

text \<open>A horizontal bar chart and a pie chart of the example result.\<close>

theorem chart_kind_legend_scales_witness:
  "chartjs_type (config (projr (demo_chart (region_suggestion ''horizontalBar'')))) = ''bar'' \<and>
   indexAxis (config (projr (demo_chart (region_suggestion ''horizontalBar'')))) = Some ''y'' \<and>
   \<not> legend_display (config (projr (demo_chart (region_suggestion ''horizontalBar'')))) \<and>
   scales (config (projr (demo_chart (region_suggestion ''horizontalBar'')))) \<noteq> None \<and>
   legend_display (config (projr (demo_chart (region_suggestion ''pie'')))) \<and>
   scales (config (projr (demo_chart (region_suggestion ''pie'')))) = None"
proof -
  have e: "chartjs_type (config (projr (demo_chart (region_suggestion ''horizontalBar'')))) = ''bar'' \<and>
   indexAxis (config (projr (demo_chart (region_suggestion ''horizontalBar'')))) = Some ''y'' \<and>
   \<not> legend_display (config (projr (demo_chart (region_suggestion ''horizontalBar'')))) \<and>
   scales (config (projr (demo_chart (region_suggestion ''horizontalBar'')))) \<noteq> None \<and>
   legend_display (config (projr (demo_chart (region_suggestion ''pie'')))) \<and>
   scales (config (projr (demo_chart (region_suggestion ''pie'')))) = None"
    by code_simp
  from chart_kind_legend_scales [OF demo_chart_returns(3)]
       chart_kind_legend_scales [OF demo_chart_returns(2)] e
  show ?thesis by blast
qed

end
